theory Spec2Isabelle
  imports Main
begin

section \<open>The bridging header as text\<close>

text \<open>
  The repository is one file, \<^verbatim>\<open>KuzuTestApp/KuzuTestApp/KuzuTestApp-Bridging-Header.h\<close>.
  It is a C header, so its behaviour is what the preprocessor does with its text.
  \<open>header_src\<close> is that text, byte for byte: each physical line as a string literal,
  the line feeds written out. The last physical line (the \<^verbatim>\<open>#endif\<close>) ends in a
  space and has no line feed after it.
\<close>

definition newline :: char where
  "newline = CHR 0x0A"

definition header_src :: string where
  \<open>header_src =
     ''#ifndef KuzuTestApp_Bridging_Header_h'' @ [newline] @
     ''#define KuzuTestApp_Bridging_Header_h'' @ [newline] @
     [newline] @
     ''// Using local copy of the header with suggested path'' @ [newline] @
     ''#include "KuzuHeaders/kuzu.h"'' @ [newline] @
     ''// #import <Kuzu/kuzu.h> // Previous attempt'' @ [newline] @
     ''// #import <c_api/kuzu.h> // Didn't work'' @ [newline] @
     ''// #import <kuzu.h> // Reverted based on linter errors'' @ [newline] @
     ''// #import <Kuzu/c_api/kuzu.h> // Previous attempt'' @ [newline] @
     [newline] @
     ''#endif /* KuzuTestApp_Bridging_Header_h */ ''\<close>

text \<open>
  Physical lines: the text is cut at every line feed; a line feed at the very end of a
  text does not open a further, empty line (a text of two lines has two lines with or
  without a line feed after the second). \<open>lines_from cur cs\<close> holds the line being read,
  reversed, in \<open>cur\<close>.
\<close>

fun lines_from :: "string \<Rightarrow> string \<Rightarrow> string list" where
  "lines_from cur [] = (if cur = [] then [] else [rev cur])"
| "lines_from cur (c # cs) =
     (if c = newline then rev cur # lines_from [] cs else lines_from (c # cur) cs)"

definition lines_of :: "string \<Rightarrow> string list" where
  "lines_of src = lines_from [] src"

definition count_newlines :: "string \<Rightarrow> nat" where
  "count_newlines cs = length (filter (\<lambda>c. c = newline) cs)"

section \<open>Reading the text as the preprocessor does\<close>

text \<open>
  The header uses four directives (\<^verbatim>\<open>#ifndef\<close>, \<^verbatim>\<open>#define\<close>, \<^verbatim>\<open>#include\<close>,
  \<^verbatim>\<open>#endif\<close>), line comments and one block comment. The reader below covers that
  fragment of C preprocessing and nothing more: comments are removed first (each becomes
  one space, and a quote or an apostrophe inside a comment opens no literal), then every
  line is classified. Any other directive is kept as \<open>Other_directive\<close> and refused when
  it would have to be executed; a line that is neither blank nor a directive is \<open>Text\<close>,
  the only kind of line that can hold a declaration or a statement. An \<^verbatim>\<open>#import\<close>
  is read (the comments hold four) but not executed: the header has none outside its
  comments. Line splicing, trigraphs and macro expansion are not modelled: the text has
  no backslash, no question mark and no \<open>Text\<close> line (\<open>header_plain\<close> below).
\<close>

subsection \<open>Comments\<close>

datatype lex_mode = Code | Literal char | Line_comment | Block_comment

datatype piece = Ch char | Comment string

fun scan :: "lex_mode \<Rightarrow> string \<Rightarrow> string \<Rightarrow> piece list" where
  "scan Code acc [] = []"
| "scan (Literal q) acc [] = []"
| "scan Line_comment acc [] = [Comment (rev acc)]"
| "scan Block_comment acc [] = [Comment (rev acc)]"
| "scan Code acc [c] = [Ch c]"
| "scan Code acc (c # d # cs) =
     (if c = CHR ''/'' \<and> d = CHR ''/'' then scan Line_comment [] cs
      else if c = CHR ''/'' \<and> d = CHR ''*'' then scan Block_comment [] cs
      else if c = CHR 0x22 \<or> c = CHR 0x27 then Ch c # scan (Literal c) [] (d # cs)
      else Ch c # scan Code [] (d # cs))"
| "scan (Literal q) acc [c] = [Ch c]"
| "scan (Literal q) acc (c # d # cs) =
     (if c = CHR 0x5C then Ch c # Ch d # scan (Literal q) [] cs
      else if c = q \<or> c = newline then Ch c # scan Code [] (d # cs)
      else Ch c # scan (Literal q) [] (d # cs))"
| "scan Line_comment acc (c # cs) =
     (if c = newline then Comment (rev acc) # Ch c # scan Code [] cs
      else scan Line_comment (c # acc) cs)"
| "scan Block_comment acc [c] = [Comment (rev (c # acc))]"
| "scan Block_comment acc (c # d # cs) =
     (if c = CHR ''*'' \<and> d = CHR ''/'' then Comment (rev acc) # scan Code [] cs
      else scan Block_comment (c # acc) (d # cs))"

fun piece_text :: "piece \<Rightarrow> string" where
  "piece_text (Ch c) = [c]"
| "piece_text (Comment b) = '' ''"

fun piece_comment :: "piece \<Rightarrow> string list" where
  "piece_comment (Ch c) = []"
| "piece_comment (Comment b) = [b]"

definition strip_comments :: "string \<Rightarrow> string" where
  "strip_comments src = concat (map piece_text (scan Code [] src))"

definition comments_of :: "string \<Rightarrow> string list" where
  "comments_of src = concat (map piece_comment (scan Code [] src))"

subsection \<open>Lines\<close>

datatype header_name = Quoted string | Angled string

datatype inc_kind = Hash_include | Hash_import

datatype pp_line =
    Blank
  | Text string
  | Ifndef string
  | Define string string
  | Include inc_kind header_name
  | Endif
  | Other_directive string string

definition is_blank :: "char \<Rightarrow> bool" where
  "is_blank c = (c = CHR '' '' \<or> c = CHR 0x09 \<or> c = CHR 0x0B \<or> c = CHR 0x0C \<or> c = CHR 0x0D)"

definition is_digit :: "char \<Rightarrow> bool" where
  "is_digit c = (c \<in> set ''0123456789'')"

definition is_ident_char :: "char \<Rightarrow> bool" where
  "is_ident_char c =
     (c \<in> set ''abcdefghijklmnopqrstuvwxyzABCDEFGHIJKLMNOPQRSTUVWXYZ_'' \<or> is_digit c)"

definition trim_left :: "string \<Rightarrow> string" where
  "trim_left cs = dropWhile is_blank cs"

definition trim :: "string \<Rightarrow> string" where
  "trim cs = rev (dropWhile is_blank (rev (dropWhile is_blank cs)))"

definition is_identifier :: "string \<Rightarrow> bool" where
  "is_identifier cs = (case cs of [] \<Rightarrow> False | c # _ \<Rightarrow> list_all is_ident_char cs \<and> \<not> is_digit c)"

definition identifier_prefix :: "string \<Rightarrow> string" where
  "identifier_prefix cs =
     (case cs of [] \<Rightarrow> [] | c # _ \<Rightarrow> if is_digit c then [] else takeWhile is_ident_char cs)"

definition delimited :: "char \<Rightarrow> string \<Rightarrow> string option" where
  "delimited close cs =
     (if dropWhile (\<lambda>c. c \<noteq> close) cs = [close]
      then Some (takeWhile (\<lambda>c. c \<noteq> close) cs) else None)"

fun parse_header_name :: "string \<Rightarrow> header_name option" where
  "parse_header_name [] = None"
| "parse_header_name (c # cs) =
     (if c = CHR 0x22 then map_option Quoted (delimited (CHR 0x22) cs)
      else if c = CHR ''<'' then map_option Angled (delimited (CHR ''>'') cs)
      else None)"

definition parse_include :: "inc_kind \<Rightarrow> string \<Rightarrow> string \<Rightarrow> pp_line" where
  "parse_include k name args =
     (case parse_header_name args of
        Some h \<Rightarrow> Include k h
      | None \<Rightarrow> Other_directive name args)"

definition parse_directive :: "string \<Rightarrow> string \<Rightarrow> pp_line" where
  "parse_directive name args =
     (if name = [] \<and> args = [] then Blank
      else if name = ''ifndef'' then
        (if is_identifier args then Ifndef args else Other_directive name args)
      else if name = ''define'' then
        (if identifier_prefix args = [] then Other_directive name args
         else Define (identifier_prefix args)
                (trim_left (drop (length (identifier_prefix args)) args)))
      else if name = ''include'' then parse_include Hash_include name args
      else if name = ''import'' then parse_include Hash_import name args
      else if name = ''endif'' \<and> args = [] then Endif
      else Other_directive name args)"

definition parse_line :: "string \<Rightarrow> pp_line" where
  "parse_line l =
     (case trim l of
        [] \<Rightarrow> Blank
      | c # cs \<Rightarrow>
          if c = CHR ''#''
          then parse_directive (takeWhile is_ident_char (trim_left cs))
                 (trim_left (dropWhile is_ident_char (trim_left cs)))
          else Text l)"

definition pp_lines :: "string \<Rightarrow> pp_line list" where
  "pp_lines src = map parse_line (lines_of (strip_comments src))"


definition line_include :: "pp_line \<Rightarrow> (inc_kind \<times> header_name) list" where
  "line_include l = (case l of Include k h \<Rightarrow> [(k, h)] | _ \<Rightarrow> [])"


definition line_text :: "pp_line \<Rightarrow> string list" where
  "line_text l = (case l of Text t \<Rightarrow> [t] | _ \<Rightarrow> [])"

text \<open>What stands in a text outside its comments.\<close>

definition include_directives :: "string \<Rightarrow> (inc_kind \<times> header_name) list" where
  "include_directives src = concat (map line_include (pp_lines src))"


definition text_lines :: "string \<Rightarrow> string list" where
  "text_lines src = concat (map line_text (pp_lines src))"

definition directives :: "string \<Rightarrow> pp_line list" where
  "directives src = filter (\<lambda>l. l \<noteq> Blank) (pp_lines src)"

text \<open>
  What stands inside the comments: each comment's body is read as the line it would be
  if the comment marker were deleted, together with the remarks (comments of its own)
  that follow on it.
\<close>

definition commented_out :: "string \<Rightarrow> (pp_line \<times> string list) list" where
  "commented_out src =
     map (\<lambda>b. (parse_line (strip_comments b), comments_of b)) (comments_of src)"

definition commented_includes :: "string \<Rightarrow> (inc_kind \<times> header_name) list" where
  "commented_includes src = concat (map (line_include \<circ> fst) (commented_out src))"

text \<open>How often a word occurs in a text, at any position.\<close>

fun occurrences :: "string \<Rightarrow> string \<Rightarrow> nat" where
  "occurrences w [] = 0"
| "occurrences w (c # cs) =
     (if take (length w) (c # cs) = w then 1 else 0) + occurrences w cs"

section \<open>Executing the directives\<close>

text \<open>
  The preprocessor's state, as far as a header can touch it: the macro environment (a
  name and its replacement text) and the text handed on to the compiler, in which the
  declarations are. The functions work on every extension of the record, so whatever
  else a compilation holds is carried along.

  The header named by an \<^verbatim>\<open>#include\<close> is not part of the repository
  (\<^verbatim>\<open>KuzuHeaders/kuzu.h\<close> is the vendored interface of the database library). Finding
  and processing it is therefore a parameter: a resolver maps a header name and a state
  to the state after that header, or to an error such as the header not being found.
\<close>

record pp_state =
  macros :: "string \<rightharpoonup> string"
  emitted :: "string list"

datatype pp_error =
    Header_not_found header_name
  | Unsupported string
  | Unmatched_endif
  | Unterminated_conditional

type_synonym 'a resolver =
  "header_name \<Rightarrow> 'a pp_state_scheme \<Rightarrow> pp_error + 'a pp_state_scheme"

text \<open>
  \<open>exec inc opened skipping ls s\<close> runs the lines \<open>ls\<close>: \<open>opened\<close> counts the
  conditionals that are open and being read, \<open>skipping\<close> the nesting depth inside a
  group that is being skipped (0 when the lines are read).
\<close>

fun exec :: "'a resolver \<Rightarrow> nat \<Rightarrow> nat \<Rightarrow> pp_line list \<Rightarrow> 'a pp_state_scheme
    \<Rightarrow> pp_error + 'a pp_state_scheme" where
  "exec inc opened skipping [] s =
     (if opened = 0 \<and> skipping = 0 then Inr s else Inl Unterminated_conditional)"
| "exec inc opened 0 (Blank # ls) s = exec inc opened 0 ls s"
| "exec inc opened 0 (Text t # ls) s = exec inc opened 0 ls (s\<lparr>emitted := emitted s @ [t]\<rparr>)"
| "exec inc opened 0 (Ifndef m # ls) s =
     (if macros s m = None then exec inc (Suc opened) 0 ls s
      else exec inc opened (Suc 0) ls s)"
| "exec inc opened 0 (Define m b # ls) s =
     exec inc opened 0 ls (s\<lparr>macros := (macros s)(m \<mapsto> b)\<rparr>)"
| "exec inc opened 0 (Include Hash_include h # ls) s =
     (case inc h s of Inl e \<Rightarrow> Inl e | Inr s' \<Rightarrow> exec inc opened 0 ls s')"
| "exec inc opened 0 (Include Hash_import h # ls) s = Inl (Unsupported ''import'')"
| "exec inc 0 0 (Endif # ls) s = Inl Unmatched_endif"
| "exec inc (Suc n) 0 (Endif # ls) s = exec inc n 0 ls s"
| "exec inc opened 0 (Other_directive n a # ls) s = Inl (Unsupported n)"
| "exec inc opened (Suc k) (Ifndef m # ls) s = exec inc opened (Suc (Suc k)) ls s"
| "exec inc opened (Suc k) (Endif # ls) s = exec inc opened k ls s"
| "exec inc opened (Suc k) (Other_directive n a # ls) s =
     (if n = ''if'' \<or> n = ''ifdef'' \<or> n = ''ifndef''
      then exec inc opened (Suc (Suc k)) ls s
      else if (n = ''else'' \<or> n = ''elif'') \<and> k = 0 then Inl (Unsupported n)
      else exec inc opened (Suc k) ls s)"
| "exec inc opened (Suc k) (Blank # ls) s = exec inc opened (Suc k) ls s"
| "exec inc opened (Suc k) (Text t # ls) s = exec inc opened (Suc k) ls s"
| "exec inc opened (Suc k) (Define m b # ls) s = exec inc opened (Suc k) ls s"
| "exec inc opened (Suc k) (Include kd h # ls) s = exec inc opened (Suc k) ls s"

definition preprocess :: "'a resolver \<Rightarrow> string \<Rightarrow> 'a pp_state_scheme
    \<Rightarrow> pp_error + 'a pp_state_scheme" where
  "preprocess inc src s = exec inc 0 0 (pp_lines src) s"

text \<open>The same text included \<open>n\<close> times in a row, stopping at the first error.\<close>

fun include_times :: "nat \<Rightarrow> 'a resolver \<Rightarrow> string \<Rightarrow> 'a pp_state_scheme
    \<Rightarrow> pp_error + 'a pp_state_scheme" where
  "include_times 0 inc src s = Inr s"
| "include_times (Suc n) inc src s =
     (case preprocess inc src s of
        Inl e \<Rightarrow> Inl e
      | Inr s' \<Rightarrow> include_times n inc src s')"

section \<open>The header as a function\<close>

text \<open>
  The header translated by hand, directive by directive:
  \<^verbatim>\<open>
  #ifndef KuzuTestApp_Bridging_Header_h
  #define KuzuTestApp_Bridging_Header_h
  #include "KuzuHeaders/kuzu.h"
  #endif
  \<close>
\<close>

definition guard_macro :: string where
  "guard_macro = ''KuzuTestApp_Bridging_Header_h''"

definition kuzu_h :: header_name where
  "kuzu_h = Quoted ''KuzuHeaders/kuzu.h''"

definition define_guard :: "'a pp_state_scheme \<Rightarrow> 'a pp_state_scheme" where
  "define_guard s = s\<lparr>macros := (macros s)(guard_macro \<mapsto> [])\<rparr>"

definition bridging_header :: "'a resolver \<Rightarrow> 'a pp_state_scheme
    \<Rightarrow> pp_error + 'a pp_state_scheme" where
  "bridging_header inc s =
     (if macros s guard_macro = None then inc kuzu_h (define_guard s) else Inr s)"

subsection \<open>Sample inputs, and what is asked of the included header\<close>

text \<open>
  Two resolvers and a state to run the header on: a header that is found and hands the
  lines \<open>ds\<close> to the compiler, touching no macro; a header that is not found; and the
  state of a compilation that has not defined or emitted anything yet.
\<close>

definition declares :: "string list \<Rightarrow> 'a resolver" where
  "declares ds h s = Inr (s\<lparr>emitted := emitted s @ ds\<rparr>)"

definition not_found :: "'a resolver" where
  "not_found h s = Inl (Header_not_found h)"

definition sample_decls :: "string list" where
  "sample_decls = [''int sample_declaration;'']"

definition empty_state :: pp_state where
  "empty_state = \<lparr>macros = Map.empty, emitted = []\<rparr>"

definition sample_kuzu :: "header_name \<Rightarrow> pp_state \<Rightarrow> pp_error + pp_state" where
  "sample_kuzu = declares sample_decls"

text \<open>
  A third resolver: a header that is found, hands the same lines to the compiler and
  ends by undefining the bridging header's guard macro.
\<close>

definition undefining_kuzu :: "header_name \<Rightarrow> pp_state \<Rightarrow> pp_error + pp_state" where
  "undefining_kuzu h s =
     Inr (s\<lparr>macros := (macros s)(guard_macro := None), emitted := emitted s @ sample_decls\<rparr>)"

text \<open>
  What the theorems below ask of the included header, which the repository does not
  hold: \<open>keeps_macro f m\<close>, processing it never undefines \<open>m\<close>; \<open>ignores_macro f m\<close>,
  it neither reads nor writes \<open>m\<close> (processing commutes with defining \<open>m\<close>).
\<close>

definition keeps_macro ::
    "('a pp_state_scheme \<Rightarrow> pp_error + 'a pp_state_scheme) \<Rightarrow> string \<Rightarrow> bool" where
  "keeps_macro f m = (\<forall>s s'. f s = Inr s' \<longrightarrow> macros s m \<noteq> None \<longrightarrow> macros s' m \<noteq> None)"

definition ignores_macro ::
    "('a pp_state_scheme \<Rightarrow> pp_error + 'a pp_state_scheme) \<Rightarrow> string \<Rightarrow> bool" where
  "ignores_macro f m =
     (\<forall>s b. f (s\<lparr>macros := (macros s)(m \<mapsto> b)\<rparr>) =
        map_sum id (\<lambda>t. t\<lparr>macros := (macros t)(m \<mapsto> b)\<rparr>) (f s))"

section \<open>The header, read and run\<close>

lemmas reader_defs = header_src_def newline_def lines_of_def strip_comments_def comments_of_def
  pp_lines_def parse_line_def parse_directive_def parse_include_def delimited_def
  identifier_prefix_def is_identifier_def trim_def trim_left_def is_ident_char_def is_digit_def
  is_blank_def

lemma header_plain: "CHR 0x5C \<notin> set header_src \<and> CHR ''?'' \<notin> set header_src"
  by (simp add: header_src_def newline_def)

text \<open>The eleven physical lines, classified once comments are gone.\<close>

lemma pp_lines_header:
  "pp_lines header_src =
     [Ifndef guard_macro, Define guard_macro [], Blank, Blank, Include Hash_include kuzu_h,
      Blank, Blank, Blank, Blank, Blank, Endif]"
  by (simp add: reader_defs guard_macro_def kuzu_h_def)

text \<open>The six comments, each read as the line it would be without its marker.\<close>

lemma commented_out_header:
  \<open>commented_out header_src =
     [(Text '' Using local copy of the header with suggested path'', []),
      (Include Hash_import (Angled ''Kuzu/kuzu.h''), ['' Previous attempt'']),
      (Include Hash_import (Angled ''c_api/kuzu.h''), ['' Didn't work'']),
      (Include Hash_import (Angled ''kuzu.h''), ['' Reverted based on linter errors'']),
      (Include Hash_import (Angled ''Kuzu/c_api/kuzu.h''), ['' Previous attempt'']),
      (Text '' KuzuTestApp_Bridging_Header_h '', [])]\<close>
  by (simp add: commented_out_def reader_defs)

text \<open>
  Running the text is running the hand translation: for every resolver and every state,
  the interpreter on \<open>header_src\<close> and \<open>bridging_header\<close> agree.
\<close>

lemma preprocess_header: "preprocess inc header_src s = bridging_header inc s"
  by (simp add: preprocess_def pp_lines_header bridging_header_def define_guard_def
      split: sum.splits)

lemma text_lines_header: "text_lines header_src = []"
  by (simp add: text_lines_def pp_lines_header line_text_def)

text \<open>
  Once the guard macro is defined the header returns the state as it is, so the state
  after a successful inclusion is a fixed point, provided the included header did not
  undefine the macro.
\<close>

lemma header_fixpoint:
  assumes keeps: "keeps_macro (inc kuzu_h) guard_macro"
    and first: "preprocess inc header_src s = Inr s'"
  shows "preprocess inc header_src s' = Inr s'"
proof (cases "macros s guard_macro = None")
  case True
  with first have run: "inc kuzu_h (define_guard s) = Inr s'"
    by (simp add: preprocess_header bridging_header_def)
  have "macros (define_guard s) guard_macro \<noteq> None"
    by (simp add: define_guard_def)
  with keeps run have "macros s' guard_macro \<noteq> None"
    unfolding keeps_macro_def by blast
  then show ?thesis
    by (auto simp add: preprocess_header bridging_header_def)
next
  case False
  with first have "s' = s"
    by (simp add: preprocess_header bridging_header_def)
  with False show ?thesis
    by (auto simp add: preprocess_header bridging_header_def)
qed

lemma include_times_fixed:
  "preprocess inc src s = Inr s \<Longrightarrow> include_times n inc src s = Inr s"
  by (induction n) simp_all

section \<open>The claims\<close>

text \<open>
  Claim C1. The file has exactly one include directive outside comments, and it includes
  \<^verbatim>\<open>"KuzuHeaders/kuzu.h"\<close>; every other include directive of the file stands in a
  comment. Of the five places where the text says \<^verbatim>\<open>#include\<close> or \<^verbatim>\<open>#import\<close>, one is
  that directive and four are commented out.
\<close>

theorem header_single_include:
  \<open>include_directives header_src = [(Hash_include, Quoted ''KuzuHeaders/kuzu.h'')] \<and>
   length (commented_includes header_src) = 4 \<and>
   occurrences ''#include'' header_src = 1 \<and>
   occurrences ''#import'' header_src = 4\<close>
proof -
  have "include_directives header_src = [(Hash_include, kuzu_h)]"
    by (simp add: include_directives_def pp_lines_header line_include_def)
  moreover have "length (commented_includes header_src) = 4"
    by (simp add: commented_includes_def commented_out_header line_include_def)
  moreover have "occurrences ''#include'' header_src = 1"
    by (simp add: header_src_def newline_def)
  moreover have "occurrences ''#import'' header_src = 4"
    by (simp add: header_src_def newline_def)
  ultimately show ?thesis
    by (simp add: kuzu_h_def)
qed

text \<open>
  Claim C2, as stated, fails where the guard macro is already defined when the header is
  processed: the header then makes nothing visible, while including
  \<^verbatim>\<open>KuzuHeaders/kuzu.h\<close> directly makes that header's declarations visible.
\<close>

theorem header_exposes_kuzu_counterexample:
  "map_sum id emitted (preprocess sample_kuzu header_src (define_guard empty_state))
     \<noteq> map_sum id emitted (sample_kuzu kuzu_h (define_guard empty_state))"
  by (simp add: preprocess_header bridging_header_def define_guard_def empty_state_def
      sample_kuzu_def declares_def sample_decls_def)

text \<open>
  Claim C2, amended. The header has no text line of its own, so it introduces no
  declaration. Where \<^verbatim>\<open>KuzuTestApp_Bridging_Header_h\<close> is not defined, what reaches the
  compiler through the header (or the error) is exactly what including
  \<^verbatim>\<open>KuzuHeaders/kuzu.h\<close> directly gives; where it is defined, the header adds nothing.
  The included header is taken not to read or write the guard macro.
\<close>

theorem header_exposes_kuzu:
  assumes "ignores_macro (inc kuzu_h) guard_macro"
  shows "text_lines header_src = [] \<and>
    map_sum id emitted (preprocess inc header_src s) =
      (if macros s guard_macro = None then map_sum id emitted (inc kuzu_h s)
       else Inr (emitted s))"
proof -
  from assms have "inc kuzu_h (define_guard s) = map_sum id define_guard (inc kuzu_h s)"
    unfolding ignores_macro_def define_guard_def by blast
  then have "map_sum id emitted (inc kuzu_h (define_guard s)) = map_sum id emitted (inc kuzu_h s)"
    by (cases "inc kuzu_h s") (simp_all add: define_guard_def)
  then show ?thesis
    by (simp add: text_lines_header preprocess_header bridging_header_def)
qed

theorem header_exposes_kuzu_witness:
  "ignores_macro (sample_kuzu kuzu_h) guard_macro \<and>
   text_lines header_src = [] \<and>
   map_sum id emitted (preprocess sample_kuzu header_src empty_state) = Inr sample_decls \<and>
   map_sum id emitted (sample_kuzu kuzu_h empty_state) = Inr sample_decls"
proof -
  have ignores: "ignores_macro (sample_kuzu kuzu_h) guard_macro"
    by (simp add: ignores_macro_def sample_kuzu_def declares_def)
  from ignores header_exposes_kuzu [of sample_kuzu empty_state] show ?thesis
    by (simp add: empty_state_def sample_kuzu_def declares_def)
qed

text \<open>
  Claim C3. The file defines no function, variable or type and has no statement: outside
  its comments it consists of four directives (the include guard's \<^verbatim>\<open>#ifndef\<close>,
  \<^verbatim>\<open>#define\<close> and \<^verbatim>\<open>#endif\<close>, and one \<^verbatim>\<open>#include\<close>) and blank lines, with no
  text line at all; run with an included header that contributes nothing, it hands
  nothing to the compiler.
\<close>

theorem header_only_directives:
  "directives header_src =
     [Ifndef guard_macro, Define guard_macro [], Include Hash_include kuzu_h, Endif] \<and>
   text_lines header_src = [] \<and>
   map_sum id emitted (preprocess (\<lambda>h. Inr) header_src s) = Inr (emitted s)"
proof -
  have "directives header_src =
     [Ifndef guard_macro, Define guard_macro [], Include Hash_include kuzu_h, Endif]"
    by (simp add: directives_def pp_lines_header)
  moreover have "map_sum id emitted (preprocess (\<lambda>h. Inr) header_src s) = Inr (emitted s)"
    by (simp add: preprocess_header bridging_header_def define_guard_def)
  ultimately show ?thesis
    by (simp add: text_lines_header)
qed

text \<open>
  Claim C4. The comments record exactly four earlier include paths, \<^verbatim>\<open><Kuzu/kuzu.h>\<close>,
  \<^verbatim>\<open><c_api/kuzu.h>\<close>, \<^verbatim>\<open><kuzu.h>\<close> and \<^verbatim>\<open><Kuzu/c_api/kuzu.h>\<close>, each with the remark
  that it was tried before; no other commented-out include path is in the file.
\<close>

theorem header_commented_includes:
  \<open>commented_includes header_src =
     [(Hash_import, Angled ''Kuzu/kuzu.h''), (Hash_import, Angled ''c_api/kuzu.h''),
      (Hash_import, Angled ''kuzu.h''), (Hash_import, Angled ''Kuzu/c_api/kuzu.h'')] \<and>
   map snd (filter (\<lambda>c. line_include (fst c) \<noteq> []) (commented_out header_src)) =
     [['' Previous attempt''], ['' Didn't work''], ['' Reverted based on linter errors''],
      ['' Previous attempt'']]\<close>
  by (simp add: commented_includes_def commented_out_header line_include_def)


text \<open>
  Claim C5, as stated, fails: with an included header that is found and contributes
  nothing, processing the header still changes the state (the guard macro becomes
  defined); and when the included header is not found, processing ends in that error.
\<close>

theorem header_frame_counterexample:
  "preprocess (\<lambda>h. Inr) header_src empty_state \<noteq> Inr empty_state \<and>
   preprocess not_found header_src empty_state = Inl (Header_not_found kuzu_h)"
  by (simp add: preprocess_header bridging_header_def define_guard_def empty_state_def
      not_found_def fun_eq_iff)

text \<open>
  Claim C5, amended. For every state and every included header, processing the header
  reads nothing but whether \<^verbatim>\<open>KuzuTestApp_Bridging_Header_h\<close> is defined and emits no
  text of its own. If the macro is defined, the state is returned unchanged. If not, the
  result is that of including \<^verbatim>\<open>KuzuHeaders/kuzu.h\<close> in the state whose only change is
  that the macro is defined (with empty replacement): the included header's state on
  success, its error on failure, and no error of the bridging header's own.
\<close>

theorem header_frame:
  "preprocess inc header_src s =
     (if macros s guard_macro = None
      then inc kuzu_h (s\<lparr>macros := (macros s)(guard_macro \<mapsto> [])\<rparr>)
      else Inr s) \<and>
   text_lines header_src = []"
  by (simp add: preprocess_header bridging_header_def define_guard_def text_lines_header)

text \<open>
  Claim C6, as stated, fails: cut at its line feeds, the text has eleven lines, not ten.
\<close>

theorem header_ten_lines_counterexample: "length (lines_of header_src) \<noteq> 10"
  by (simp add: header_src_def newline_def lines_of_def)

text \<open>
  Claim C6, amended. The file consists of exactly 11 lines: ten lines that end in a
  line feed, and an eleventh, the \<^verbatim>\<open>#endif\<close>, that does not. Ten is the number of line
  feeds in the file.
\<close>

theorem header_eleven_lines:
  \<open>length (lines_of header_src) = 11 \<and>
   count_newlines header_src = 10 \<and>
   lines_of header_src ! 10 = ''#endif /* KuzuTestApp_Bridging_Header_h */ ''\<close>
  by (simp add: header_src_def newline_def lines_of_def count_newlines_def)

text \<open>
  Claim C7, as stated, fails for an included header that undefines the guard macro: the
  first inclusion then leaves the macro undefined, the second inclusion processes the
  included header again, and its lines reach the compiler twice.
\<close>

theorem header_idempotent_counterexample:
  "preprocess undefining_kuzu header_src empty_state =
     Inr \<lparr>macros = Map.empty, emitted = sample_decls\<rparr> \<and>
   include_times (Suc (Suc 0)) undefining_kuzu header_src empty_state =
     Inr \<lparr>macros = Map.empty, emitted = sample_decls @ sample_decls\<rparr> \<and>
   include_times (Suc (Suc 0)) undefining_kuzu header_src empty_state \<noteq>
     preprocess undefining_kuzu header_src empty_state"
  by (simp add: preprocess_header bridging_header_def define_guard_def empty_state_def
      undefining_kuzu_def sample_decls_def)

text \<open>
  Claim C7, amended. For every translation unit whose included header
  \<^verbatim>\<open>KuzuHeaders/kuzu.h\<close> does not undefine \<^verbatim>\<open>KuzuTestApp_Bridging_Header_h\<close>,
  inclusion is idempotent: including the header twice, or any number of times more than
  once, gives exactly what including it once gives (the same macros, the same emitted
  text, the same error if the first inclusion fails), because after a first inclusion
  the guard macro is defined and every further inclusion returns the state as it is.
\<close>

theorem header_idempotent:
  assumes "keeps_macro (inc kuzu_h) guard_macro"
  shows "include_times (Suc n) inc header_src s = preprocess inc header_src s"
proof (cases "preprocess inc header_src s")
  case (Inl e)
  then show ?thesis
    by simp
next
  case (Inr s')
  with assms have "preprocess inc header_src s' = Inr s'"
    by (rule header_fixpoint)
  then have "include_times n inc header_src s' = Inr s'"
    by (rule include_times_fixed)
  with Inr show ?thesis
    by simp
qed

theorem header_idempotent_witness:
  "keeps_macro (sample_kuzu kuzu_h) guard_macro \<and>
   preprocess sample_kuzu header_src empty_state =
     Inr \<lparr>macros = [guard_macro \<mapsto> []], emitted = sample_decls\<rparr> \<and>
   include_times (Suc (Suc 0)) sample_kuzu header_src empty_state =
     Inr \<lparr>macros = [guard_macro \<mapsto> []], emitted = sample_decls\<rparr>"
proof -
  have keeps: "keeps_macro (sample_kuzu kuzu_h) guard_macro"
    by (auto simp add: keeps_macro_def sample_kuzu_def declares_def)
  have first: "preprocess sample_kuzu header_src empty_state =
     Inr \<lparr>macros = [guard_macro \<mapsto> []], emitted = sample_decls\<rparr>"
    by (simp add: preprocess_header bridging_header_def define_guard_def sample_kuzu_def
        declares_def empty_state_def)
  from keeps first header_idempotent [of sample_kuzu "Suc 0" empty_state]
  show ?thesis
    by simp
qed



end
